theory Spec2Isabelle
  imports Complex_Main "HOL-Library.AList"
begin

section \<open>Python values\<close>

text \<open>
  The script \<^verbatim>\<open>scripts/dvp_swar.py\<close> works on values decoded from JSON. They are
  modelled by the datatype \<open>json\<close>; a Python dict is an association list in insertion
  order. Python floats are modelled as rationals (exact arithmetic), strings as lists of
  8-bit characters with ASCII case mapping. Every exception of the source is a value of
  type \<open>error\<close>, and a function that can raise returns \<open>error + 'a\<close>.
\<close>

datatype error =
  TypeError | ValueError | IndexError | KeyError | AttributeError
  | ZeroDivisionError | HTTPError | RequestException

datatype json =
  JNull | JBool bool | JInt int | JFloat rat | JStr string
  | JArr "json list" | JObj "(string \<times> json) list"

type_synonym 'a dict = "(string \<times> 'a) list"

definition bind :: "error + 'a \<Rightarrow> ('a \<Rightarrow> error + 'b) \<Rightarrow> error + 'b" where
  "bind m f = (case m of Inl e \<Rightarrow> Inl e | Inr x \<Rightarrow> f x)"

text \<open>
  Built-in conversions of Python that the script calls and that are not modelled in
  detail are parameters: \<open>str\<close> of a value that is not a string, and \<open>int\<close> and
  \<open>float\<close> of a string (\<open>None\<close> stands for \<^verbatim>\<open>ValueError\<close>).
\<close>

record builtins =
  str_repr :: "json \<Rightarrow> string"
  int_of_str :: "string \<Rightarrow> int option"
  float_of_str :: "string \<Rightarrow> rat option"

fun truthy :: "json \<Rightarrow> bool" where
  "truthy JNull = False"
| "truthy (JBool b) = b"
| "truthy (JInt n) = (n \<noteq> 0)"
| "truthy (JFloat q) = (q \<noteq> 0)"
| "truthy (JStr s) = (s \<noteq> [])"
| "truthy (JArr xs) = (xs \<noteq> [])"
| "truthy (JObj kvs) = (kvs \<noteq> [])"

text \<open>\<^verbatim>\<open>x or d\<close>\<close>

definition py_or :: "json \<Rightarrow> json \<Rightarrow> json" where
  "py_or x d = (if truthy x then x else d)"

text \<open>\<^verbatim>\<open>str(x)\<close>\<close>

definition py_str :: "builtins \<Rightarrow> json \<Rightarrow> string" where
  "py_str py v = (case v of JStr s \<Rightarrow> s | _ \<Rightarrow> str_repr py v)"

text \<open>\<^verbatim>\<open>int(x)\<close>: a float is truncated towards zero.\<close>

fun py_int :: "builtins \<Rightarrow> json \<Rightarrow> error + int" where
  "py_int py JNull = Inl TypeError"
| "py_int py (JBool b) = Inr (if b then 1 else 0)"
| "py_int py (JInt n) = Inr n"
| "py_int py (JFloat q) = Inr (if 0 \<le> q then \<lfloor>q\<rfloor> else \<lceil>q\<rceil>)"
| "py_int py (JStr s) = (case int_of_str py s of None \<Rightarrow> Inl ValueError | Some n \<Rightarrow> Inr n)"
| "py_int py (JArr xs) = Inl TypeError"
| "py_int py (JObj kvs) = Inl TypeError"

text \<open>\<^verbatim>\<open>float(x)\<close>\<close>

fun py_float :: "builtins \<Rightarrow> json \<Rightarrow> error + rat" where
  "py_float py JNull = Inl TypeError"
| "py_float py (JBool b) = Inr (if b then 1 else 0)"
| "py_float py (JInt n) = Inr (of_int n)"
| "py_float py (JFloat q) = Inr q"
| "py_float py (JStr s) = (case float_of_str py s of None \<Rightarrow> Inl ValueError | Some q \<Rightarrow> Inr q)"
| "py_float py (JArr xs) = Inl TypeError"
| "py_float py (JObj kvs) = Inl TypeError"

text \<open>\<^verbatim>\<open>d.get(k)\<close>: only a dict has the method.\<close>

fun py_get :: "json \<Rightarrow> string \<Rightarrow> error + json" where
  "py_get (JObj kvs) k = Inr (case map_of kvs k of None \<Rightarrow> JNull | Some v \<Rightarrow> v)"
| "py_get v k = Inl AttributeError"

text \<open>\<^verbatim>\<open>for x in v\<close>: a list gives its elements, a string its characters, a dict its keys.\<close>

fun py_iter :: "json \<Rightarrow> error + json list" where
  "py_iter (JArr xs) = Inr xs"
| "py_iter (JStr s) = Inr (map (\<lambda>c. JStr [c]) s)"
| "py_iter (JObj kvs) = Inr (map (\<lambda>kv. JStr (fst kv)) kvs)"
| "py_iter v = Inl TypeError"

text \<open>
  \<^verbatim>\<open>xs[i]\<close> on a sequence of length \<open>n\<close>: the positions \<open>0 .. n - 1\<close> are read
  directly, \<open>- n .. - 1\<close> are read from the back (\<open>- 1\<close> is the last element), and
  everything else raises \<^verbatim>\<open>IndexError\<close>.
\<close>

definition seq_index :: "'a list \<Rightarrow> int \<Rightarrow> error + 'a" where
  "seq_index xs i =
     (if 0 \<le> i \<and> i < int (length xs) then Inr (xs ! nat i)
      else if i < 0 \<and> - int (length xs) \<le> i then Inr (xs ! nat (int (length xs) + i))
      else Inl IndexError)"

text \<open>\<^verbatim>\<open>v[i]\<close> with an integer \<open>i\<close>; the keys of a decoded JSON object are strings.\<close>

fun py_index :: "json \<Rightarrow> int \<Rightarrow> error + json" where
  "py_index (JArr xs) i = seq_index xs i"
| "py_index (JStr s) i = map_sum id (\<lambda>c. JStr [c]) (seq_index s i)"
| "py_index (JObj kvs) i = Inl KeyError"
| "py_index v i = Inl TypeError"

subsection \<open>Strings\<close>

definition UPPER :: string where
  "UPPER = ''ABCDEFGHIJKLMNOPQRSTUVWXYZ''"

definition LOWER :: string where
  "LOWER = ''abcdefghijklmnopqrstuvwxyz''"

definition DIGITS :: string where
  "DIGITS = ''0123456789''"

definition lower_chr :: "char \<Rightarrow> char" where
  "lower_chr c = (case map_of (zip UPPER LOWER) c of Some d \<Rightarrow> d | None \<Rightarrow> c)"

definition upper_chr :: "char \<Rightarrow> char" where
  "upper_chr c = (case map_of (zip LOWER UPPER) c of Some d \<Rightarrow> d | None \<Rightarrow> c)"

definition lower_str :: "string \<Rightarrow> string" where
  "lower_str s = map lower_chr s"

definition upper_str :: "string \<Rightarrow> string" where
  "upper_str s = map upper_chr s"

text \<open>\<^verbatim>\<open>s.find(p) >= 0\<close>\<close>

fun contains :: "string \<Rightarrow> string \<Rightarrow> bool" where
  "contains p [] = (p = [])"
| "contains p (c # cs) = (take (length p) (c # cs) = p \<or> contains p cs)"

text \<open>Decimal rendering of an integer, as \<^verbatim>\<open>str\<close> gives it.\<close>

fun dec_nat :: "nat \<Rightarrow> string" where
  "dec_nat n = (if n < 10 then [DIGITS ! n] else dec_nat (n div 10) @ [DIGITS ! (n mod 10)])"

declare dec_nat.simps [simp del]

definition str_int :: "int \<Rightarrow> string" where
  "str_int i = (if i < 0 then CHR ''-'' # dec_nat (nat (- i)) else dec_nat (nat i))"

text \<open>\<^verbatim>\<open>s.zfill(2)\<close> on a string without sign.\<close>

definition zfill2 :: "string \<Rightarrow> string" where
  "zfill2 s = replicate (2 - length s) CHR ''0'' @ s"

section \<open>Constants of the script\<close>

definition ABBR_TO_TEAM_ID :: "(string \<times> int) list" where
  "ABBR_TO_TEAM_ID =
    [(''ATL'', 1610612737), (''BOS'', 1610612738), (''BKN'', 1610612751), (''CHA'', 1610612766),
     (''CHI'', 1610612741), (''CLE'', 1610612739), (''DAL'', 1610612742), (''DEN'', 1610612743),
     (''DET'', 1610612765), (''GSW'', 1610612744), (''HOU'', 1610612745), (''IND'', 1610612754),
     (''LAC'', 1610612746), (''LAL'', 1610612747), (''MEM'', 1610612763), (''MIA'', 1610612748),
     (''MIL'', 1610612749), (''MIN'', 1610612750), (''NOP'', 1610612740), (''NYK'', 1610612752),
     (''OKC'', 1610612760), (''ORL'', 1610612753), (''PHI'', 1610612755), (''PHX'', 1610612756),
     (''POR'', 1610612757), (''SAC'', 1610612758), (''SAS'', 1610612759), (''TOR'', 1610612761),
     (''UTA'', 1610612762), (''WAS'', 1610612764)]"

definition TEAM_ID_TO_ABBR :: "(int \<times> string) list" where
  "TEAM_ID_TO_ABBR = map (\<lambda>kv. (snd kv, fst kv)) ABBR_TO_TEAM_ID"

definition BUCKETS_KEYS :: "string list" where
  "BUCKETS_KEYS = [''PG'', ''SG'', ''SF'', ''PF'', ''C'']"

definition NBA_BASE :: string where
  "NBA_BASE = ''https://stats.nba.com/stats''"

section \<open>\<^verbatim>\<open>norm_name\<close>\<close>

text \<open>
  Whitespace as \<^verbatim>\<open>\s\<close> and \<^verbatim>\<open>strip\<close> see it on ASCII: tab, line feed, vertical tab,
  form feed, carriage return, the four separators 28 to 31, and the space.
\<close>

definition SPACES :: string where
  "SPACES = [CHR 0x09, CHR 0x0A, CHR 0x0B, CHR 0x0C, CHR 0x0D,
             CHR 0x1C, CHR 0x1D, CHR 0x1E, CHR 0x1F, CHR '' '']"

definition is_space :: "char \<Rightarrow> bool" where
  "is_space c = (c \<in> set SPACES)"

definition is_az :: "char \<Rightarrow> bool" where
  "is_az c = (c \<in> set LOWER)"

text \<open>A word character of \<^verbatim>\<open>\b\<close>: letter, digit or underscore.\<close>

definition is_word :: "char \<Rightarrow> bool" where
  "is_word c = (c \<in> set (LOWER @ UPPER @ DIGITS @ ''_''))"

text \<open>\<^verbatim>\<open>re.sub(r"[^a-z\s]", ' ', s)\<close>\<close>

definition sub_non_alpha :: "string \<Rightarrow> string" where
  "sub_non_alpha s = map (\<lambda>c. if is_az c \<or> is_space c then c else CHR '' '') s"

text \<open>
  \<^verbatim>\<open>re.sub(r"\b(jr|sr|ii|iii|iv)\b", ' ', s)\<close>. \<open>boundary p n\<close> is \<^verbatim>\<open>\b\<close> between the
  previous character \<open>p\<close> and the next one \<open>n\<close> (\<open>None\<close> at either end of the string).
  \<open>match_at prev s\<close> is the length of the match that starts at the head of \<open>s\<close>: the
  alternatives are tried in the order of the pattern. The scan goes from left to right;
  after a match it resumes behind the matched text.
\<close>

definition boundary :: "char option \<Rightarrow> char option \<Rightarrow> bool" where
  "boundary p n = ((case p of None \<Rightarrow> False | Some c \<Rightarrow> is_word c) \<noteq> (case n of None \<Rightarrow> False | Some c \<Rightarrow> is_word c))"

definition SUFFIXES :: "string list" where
  "SUFFIXES = [''jr'', ''sr'', ''ii'', ''iii'', ''iv'']"

definition alt_matches :: "string \<Rightarrow> string \<Rightarrow> bool" where
  "alt_matches a s = (take (length a) s = a \<and>
      boundary (Some (last a)) (case drop (length a) s of [] \<Rightarrow> None | c # _ \<Rightarrow> Some c))"

definition match_at :: "char option \<Rightarrow> string \<Rightarrow> nat option" where
  "match_at prev s =
     (if boundary prev (case s of [] \<Rightarrow> None | c # _ \<Rightarrow> Some c)
      then map_option length (find (\<lambda>a. alt_matches a s) SUFFIXES)
      else None)"

text \<open>\<open>sub_suffix prev k s\<close>: \<open>k\<close> characters of the current match are still to be consumed.\<close>

fun sub_suffix :: "char option \<Rightarrow> nat \<Rightarrow> string \<Rightarrow> string" where
  "sub_suffix prev k [] = []"
| "sub_suffix prev (Suc k) (c # cs) = sub_suffix (Some c) k cs"
| "sub_suffix prev 0 (c # cs) =
     (case match_at prev (c # cs) of
        Some n \<Rightarrow> CHR '' '' # sub_suffix (Some c) (n - 1) cs
      | None \<Rightarrow> c # sub_suffix (Some c) 0 cs)"

text \<open>\<^verbatim>\<open>re.sub(r"\s+", ' ', s)\<close>; the flag says that the scan is inside a run of whitespace.\<close>

fun sub_spaces :: "bool \<Rightarrow> string \<Rightarrow> string" where
  "sub_spaces in_run [] = []"
| "sub_spaces in_run (c # cs) =
     (if is_space c then (if in_run then sub_spaces True cs else CHR '' '' # sub_spaces True cs)
      else c # sub_spaces False cs)"

definition strip :: "string \<Rightarrow> string" where
  "strip s = rev (dropWhile is_space (rev (dropWhile is_space s)))"

definition norm_str :: "string \<Rightarrow> string" where
  "norm_str s = strip (sub_spaces False (sub_suffix None 0 (sub_non_alpha (lower_str s))))"

text \<open>
  \<^verbatim>\<open>norm_name(s)\<close>: \<^verbatim>\<open>(s or '')\<close> turns \<^verbatim>\<open>None\<close> and every other falsy value into
  the empty string; a truthy value that is not a string has no \<^verbatim>\<open>lower\<close>.
\<close>

definition norm_name :: "json \<Rightarrow> error + string" where
  "norm_name v = (case py_or v (JStr []) of JStr s \<Rightarrow> Inr (norm_str s) | _ \<Rightarrow> Inl AttributeError)"

section \<open>The outside world\<close>

text \<open>
  The script talks to three services: the game-log service of \<^verbatim>\<open>nba_api\<close>, the boxscore
  endpoint and the depth-chart endpoint (both through \<^verbatim>\<open>requests.get\<close>). What a
  service answers may depend on everything requested before, so the state that is passed
  along is the list of requests made so far, and the environment maps that history and
  a request to an answer. \<open>json_body\<close> is what \<^verbatim>\<open>r.json()\<close> gives or raises.
\<close>

datatype request = GameLog int string | Get string

record response =
  status_code :: int
  json_body :: "error + json"

record env =
  conv :: builtins
  team_game_log :: "request list \<Rightarrow> int \<Rightarrow> string \<Rightarrow> error + string list"
  http_get :: "request list \<Rightarrow> string \<Rightarrow> error + response"

record args =
  team :: string
  season :: int
  games :: int
  metric :: string
  host :: string

section \<open>\<^verbatim>\<open>fetch_depth_chart_buckets\<close>\<close>

text \<open>\<^verbatim>\<open>p if isinstance(p, str) else (p.get('name') if isinstance(p, dict) else None)\<close>\<close>

fun entry_name :: "json \<Rightarrow> json" where
  "entry_name (JStr s) = JStr s"
| "entry_name (JObj kvs) = (case map_of kvs ''name'' of None \<Rightarrow> JNull | Some v \<Rightarrow> v)"
| "entry_name v = JNull"

text \<open>The inner loop \<^verbatim>\<open>for p in arr\<close>.\<close>

fun add_entries :: "string \<Rightarrow> json list \<Rightarrow> string dict \<Rightarrow> error + string dict" where
  "add_entries k [] mapping = Inr mapping"
| "add_entries k (p # ps) mapping =
     (let name = entry_name p in
      if truthy name
      then bind (norm_name name) (\<lambda>n. add_entries k ps (AList.update n k mapping))
      else add_entries k ps mapping)"

text \<open>The outer loop \<^verbatim>\<open>for k in BUCKETS_KEYS\<close>.\<close>

fun add_buckets :: "json \<Rightarrow> string list \<Rightarrow> string dict \<Rightarrow> error + string dict" where
  "add_buckets dc [] mapping = Inr mapping"
| "add_buckets dc (k # ks) mapping =
     bind (py_get dc k) (\<lambda>a.
     bind (py_iter (py_or a (JArr []))) (\<lambda>arr.
     bind (add_entries k arr mapping) (\<lambda>mapping'.
     add_buckets dc ks mapping')))"

text \<open>The body of the \<^verbatim>\<open>try\<close> block once the response is there.\<close>

definition depth_chart_of :: "response \<Rightarrow> error + string dict" where
  "depth_chart_of r =
     (if status_code r \<noteq> 200 then Inr []
      else bind (json_body r) (\<lambda>js.
           bind (py_get js ''depthChart'') (\<lambda>d.
           add_buckets (py_or d (JObj [])) BUCKETS_KEYS [])))"

text \<open>\<^verbatim>\<open>except Exception: return {}\<close> turns every error of the body into the empty dict.\<close>

definition fetch_depth_chart_buckets ::
  "env \<Rightarrow> string \<Rightarrow> string \<Rightarrow> request list \<Rightarrow> (error + string dict) \<times> request list" where
  "fetch_depth_chart_buckets e base_url team_abbr hist =
     (let url = base_url @ ''/api/depth-chart?team='' @ team_abbr in
      ((case bind (http_get e hist url) depth_chart_of of
          Inl ex \<Rightarrow> Inr []
        | Inr mapping \<Rightarrow> Inr mapping),
       hist @ [Get url]))"

section \<open>\<^verbatim>\<open>season_label_from_year\<close>, \<^verbatim>\<open>nba_fetch\<close>, \<^verbatim>\<open>idx\<close>\<close>

definition season_label_from_year :: "int \<Rightarrow> string" where
  "season_label_from_year y = str_int y @ ''-'' @ zfill2 (str_int ((y + 1) mod 100))"

text \<open>\<^verbatim>\<open>raise_for_status\<close> raises on a status from 400 to 599.\<close>

definition nba_fetch :: "env \<Rightarrow> string \<Rightarrow> request list \<Rightarrow> (error + json) \<times> request list" where
  "nba_fetch e path_and_query hist =
     (let url = NBA_BASE @ ''/'' @ path_and_query in
      (bind (http_get e hist url) (\<lambda>r.
         if 400 \<le> status_code r \<and> status_code r < 600 then Inl HTTPError else json_body r),
       hist @ [Get url]))"

text \<open>\<^verbatim>\<open>lower.index(x)\<close>; \<open>None\<close> is the \<^verbatim>\<open>ValueError\<close> that \<^verbatim>\<open>idx\<close> catches.\<close>

fun index_of :: "'a list \<Rightarrow> 'a \<Rightarrow> nat option" where
  "index_of [] x = None"
| "index_of (y # ys) x = (if y = x then Some 0 else map_option Suc (index_of ys x))"

fun idx_names :: "string list \<Rightarrow> string list \<Rightarrow> int" where
  "idx_names lower [] = - 1"
| "idx_names lower (n # ns) =
     (case index_of lower (lower_str n) of
        Some i \<Rightarrow> int i
      | None \<Rightarrow> idx_names lower ns)"

definition idx :: "builtins \<Rightarrow> json \<Rightarrow> string list \<Rightarrow> error + int" where
  "idx py headers names =
     bind (py_iter headers) (\<lambda>hs.
     Inr (idx_names (map (\<lambda>h. lower_str (py_str py (py_or h (JStr [])))) hs) names))"

section \<open>One game\<close>

record cols =
  iTeamId :: int
  iTeamAbbr :: int
  iPlayer :: int
  iStartPos :: int
  iPTS :: int
  iREB :: int
  iAST :: int
  iFG3M :: int
  iSTL :: int
  iBLK :: int

text \<open>The loop that looks for the result set whose name contains \<^verbatim>\<open>player\<close>.\<close>

fun find_pset :: "builtins \<Rightarrow> json list \<Rightarrow> error + json option" where
  "find_pset py [] = Inr None"
| "find_pset py (rset # rest) =
     bind (py_get rset ''name'') (\<lambda>nm.
     if contains ''player'' (lower_str (py_str py (py_or nm (JStr []))))
     then Inr (Some rset) else find_pset py rest)"

text \<open>
  From the decoded boxscore to \<^verbatim>\<open>headers\<close> and \<^verbatim>\<open>rows\<close>; \<open>None\<close> is the
  \<^verbatim>\<open>continue\<close> taken when one of them is empty.
\<close>

definition select_rows :: "builtins \<Rightarrow> json \<Rightarrow> error + (json \<times> json) option" where
  "select_rows py bs =
     bind (py_get bs ''resultSets'') (\<lambda>rs0.
     let rs = py_or rs0 (JArr []) in
     bind (py_iter rs) (\<lambda>rsets.
     bind (find_pset py rsets) (\<lambda>found.
     bind (case found of
             Some p \<Rightarrow> Inr (Some p)
           | None \<Rightarrow> if truthy rs then map_sum id Some (py_index rs 0) else Inr None) (\<lambda>pset.
     bind (case pset of
             Some p \<Rightarrow> if truthy p then py_get p ''headers'' else Inr (JArr [])
           | None \<Rightarrow> Inr (JArr [])) (\<lambda>headers.
     bind (case pset of
             Some p \<Rightarrow> if truthy p then py_get p ''rowSet'' else Inr (JArr [])
           | None \<Rightarrow> Inr (JArr [])) (\<lambda>rows.
     if \<not> truthy headers \<or> \<not> truthy rows then Inr None
     else Inr (Some (headers, rows))))))))"

definition resolve_cols :: "builtins \<Rightarrow> json \<Rightarrow> error + cols" where
  "resolve_cols py headers =
     bind (idx py headers [''TEAM_ID'']) (\<lambda>c1.
     bind (idx py headers [''TEAM_ABBREVIATION'']) (\<lambda>c2.
     bind (idx py headers [''PLAYER_NAME'']) (\<lambda>c3.
     bind (idx py headers [''START_POSITION'']) (\<lambda>c4.
     bind (idx py headers [''PTS'']) (\<lambda>c5.
     bind (idx py headers [''REB'']) (\<lambda>c6.
     bind (idx py headers [''AST'']) (\<lambda>c7.
     bind (idx py headers [''FG3M'']) (\<lambda>c8.
     bind (idx py headers [''STL'']) (\<lambda>c9.
     bind (idx py headers [''BLK'']) (\<lambda>c10.
     Inr \<lparr>iTeamId = c1, iTeamAbbr = c2, iPlayer = c3, iStartPos = c4, iPTS = c5,
          iREB = c6, iAST = c7, iFG3M = c8, iSTL = c9, iBLK = c10\<rparr>))))))))))"

text \<open>\<^verbatim>\<open>int(r[iTeamId])\<close>\<close>

definition row_team :: "builtins \<Rightarrow> cols \<Rightarrow> json \<Rightarrow> error + int" where
  "row_team py c r = bind (py_index r (iTeamId c)) (py_int py)"

text \<open>\<^verbatim>\<open>next((r for r in rows if int(r[iTeamId]) != team_id), None)\<close>\<close>

fun find_opp_row :: "builtins \<Rightarrow> cols \<Rightarrow> int \<Rightarrow> json list \<Rightarrow> error + json option" where
  "find_opp_row py c team_id [] = Inr None"
| "find_opp_row py c team_id (r # rs) =
     bind (row_team py c r) (\<lambda>t.
     if t \<noteq> team_id then Inr (Some r) else find_opp_row py c team_id rs)"

text \<open>\<^verbatim>\<open>TEAM_ID_TO_ABBR.get(opp_id) or str(opp_row[iTeamAbbr] or '')\<close>\<close>

definition opp_abbr_of :: "builtins \<Rightarrow> cols \<Rightarrow> int \<Rightarrow> json \<Rightarrow> error + string" where
  "opp_abbr_of py c opp_id opp_row =
     (case map_of TEAM_ID_TO_ABBR opp_id of
        Some a \<Rightarrow> if a \<noteq> [] then Inr a
                  else bind (py_index opp_row (iTeamAbbr c)) (\<lambda>v. Inr (py_str py (py_or v (JStr []))))
      | None \<Rightarrow> bind (py_index opp_row (iTeamAbbr c)) (\<lambda>v. Inr (py_str py (py_or v (JStr [])))))"

text \<open>
  Everything between the boxscore and the depth-chart request: the columns, the rows,
  the opponent's id and abbreviation. \<open>None\<close> is one of the three \<^verbatim>\<open>continue\<close>s.
\<close>

definition game_setup ::
  "builtins \<Rightarrow> int \<Rightarrow> json \<Rightarrow> error + (cols \<times> json list \<times> int \<times> string) option" where
  "game_setup py team_id bs =
     bind (select_rows py bs) (\<lambda>sel.
     case sel of
       None \<Rightarrow> Inr None
     | Some (headers, rows) \<Rightarrow>
         bind (resolve_cols py headers) (\<lambda>c.
         bind (py_iter rows) (\<lambda>rs.
         bind (find_opp_row py c team_id rs) (\<lambda>found.
         case found of
           None \<Rightarrow> Inr None
         | Some opp_row \<Rightarrow>
             if \<not> truthy opp_row then Inr None
             else bind (row_team py c opp_row) (\<lambda>opp_id.
                  bind (opp_abbr_of py c opp_id opp_row) (\<lambda>opp_abbr.
                  if opp_abbr = [] then Inr None
                  else Inr (Some (c, rs, opp_id, opp_abbr))))))))"

section \<open>The rows of the opponent\<close>

text \<open>\<^verbatim>\<open>float(r[i] or 0)\<close>\<close>

definition cell_float :: "builtins \<Rightarrow> json \<Rightarrow> int \<Rightarrow> error + rat" where
  "cell_float py r i = bind (py_index r i) (\<lambda>v. py_float py (py_or v (JInt 0)))"

text \<open>\<^verbatim>\<open>str(r[i] or '')\<close>\<close>

definition cell_str :: "builtins \<Rightarrow> json \<Rightarrow> int \<Rightarrow> error + string" where
  "cell_str py r i = bind (py_index r i) (\<lambda>v. Inr (py_str py (py_or v (JStr []))))"

text \<open>The column that the \<^verbatim>\<open>if\<close>/\<^verbatim>\<open>elif\<close> chain on \<^verbatim>\<open>args.metric\<close> reads.\<close>

definition metric_col :: "cols \<Rightarrow> string \<Rightarrow> int" where
  "metric_col c m =
     (if m = ''pts'' then iPTS c
      else if m = ''reb'' then iREB c
      else if m = ''ast'' then iAST c
      else if m = ''fg3m'' then iFG3M c
      else if m = ''stl'' then iSTL c
      else if m = ''blk'' then iBLK c
      else iPTS c)"

definition row_val :: "builtins \<Rightarrow> cols \<Rightarrow> string \<Rightarrow> json \<Rightarrow> error + rat" where
  "row_val py c m r = cell_float py r (metric_col c m)"

text \<open>The heuristic of the source, with \<^verbatim>\<open>tov\<close> as a parameter; the script passes \<open>0\<close>.\<close>

definition heuristic_bucket :: "string \<Rightarrow> rat \<Rightarrow> rat \<Rightarrow> rat \<Rightarrow> rat \<Rightarrow> string" where
  "heuristic_bucket start_pos ast tov reb blk =
     (if start_pos = ''G'' then (if ast \<ge> 5 \<or> tov \<ge> 4 then ''PG'' else ''SG'')
      else if start_pos = ''F'' then (if reb \<ge> 8 \<or> blk \<ge> 2 then ''PF'' else ''SF'')
      else if start_pos = ''C'' then ''C''
      else (if reb \<ge> 7 then ''PF'' else ''C''))"

text \<open>\<^verbatim>\<open>d[k] += v\<close>: a missing key raises \<^verbatim>\<open>KeyError\<close>.\<close>

definition dict_iadd :: "rat dict \<Rightarrow> string \<Rightarrow> rat \<Rightarrow> error + rat dict" where
  "dict_iadd d k v =
     (case map_of d k of None \<Rightarrow> Inl KeyError | Some x \<Rightarrow> Inr (AList.update k (x + v) d))"

text \<open>\<^verbatim>\<open>{k: 0.0 for k in BUCKETS_KEYS}\<close>\<close>

definition zero_buckets :: "rat dict" where
  "zero_buckets = map (\<lambda>k. (k, 0)) BUCKETS_KEYS"

text \<open>The heuristic single-bucket fallback at the end of the row loop.\<close>

definition heuristic_add ::
  "builtins \<Rightarrow> cols \<Rightarrow> string \<Rightarrow> rat \<Rightarrow> rat dict \<Rightarrow> json \<Rightarrow> error + rat dict" where
  "heuristic_add py c start_pos val game_buckets r =
     bind (cell_float py r (iAST c)) (\<lambda>ast.
     bind (cell_float py r (iREB c)) (\<lambda>reb.
     bind (cell_float py r (iBLK c)) (\<lambda>blk.
     dict_iadd game_buckets (heuristic_bucket start_pos ast 0 reb blk) val)))"

text \<open>
  \<^verbatim>\<open>key = depth_map.get(...)\<close> followed by \<^verbatim>\<open>if key in BUCKETS_KEYS\<close>: the bucket of
  the roster, if there is one.
\<close>

definition roster_key :: "string dict \<Rightarrow> string \<Rightarrow> string option" where
  "roster_key depth_map player_name =
     (case map_of depth_map (norm_str player_name) of
        None \<Rightarrow> None
      | Some key \<Rightarrow> if key \<in> set BUCKETS_KEYS then Some key else None)"

text \<open>One pass of the loop \<^verbatim>\<open>for r in rows\<close>.\<close>

definition process_row ::
  "builtins \<Rightarrow> cols \<Rightarrow> int \<Rightarrow> string \<Rightarrow> string dict \<Rightarrow> rat dict \<Rightarrow> json \<Rightarrow> error + rat dict" where
  "process_row py c opp_id m depth_map game_buckets r =
     bind (row_team py c r) (\<lambda>t.
     if t \<noteq> opp_id then Inr game_buckets
     else
       bind (cell_str py r (iPlayer c)) (\<lambda>player_name.
       bind (cell_str py r (iStartPos c)) (\<lambda>sp.
       bind (row_val py c m r) (\<lambda>val.
       if val = 0 then Inr game_buckets
       else
         (case roster_key depth_map player_name of
            Some key \<Rightarrow> dict_iadd game_buckets key val
          | None \<Rightarrow> heuristic_add py c (upper_str sp) val game_buckets r)))))"

fun process_rows ::
  "builtins \<Rightarrow> cols \<Rightarrow> int \<Rightarrow> string \<Rightarrow> string dict \<Rightarrow> json list \<Rightarrow> rat dict \<Rightarrow> error + rat dict" where
  "process_rows py c opp_id m depth_map [] game_buckets = Inr game_buckets"
| "process_rows py c opp_id m depth_map (r # rs) game_buckets =
     bind (process_row py c opp_id m depth_map game_buckets r)
          (process_rows py c opp_id m depth_map rs)"

section \<open>\<^verbatim>\<open>compute_for_season\<close> and \<^verbatim>\<open>main\<close>\<close>

definition boxscore_path :: "string \<Rightarrow> string" where
  "boxscore_path gid =
     ''boxscoretraditionalv2?GameID='' @ gid @
     ''&StartPeriod=0&EndPeriod=0&StartRange=0&EndRange=0&RangeType=0''"

text \<open>
  The body of the loop \<^verbatim>\<open>for gid in gids\<close> up to the update of the totals. The result
  \<open>Inr None\<close> is a \<^verbatim>\<open>continue\<close>, \<open>Inr (Some game_buckets)\<close> a game that is counted, and
  \<open>Inl\<close> an exception that leaves the loop. Only the call of \<^verbatim>\<open>nba_fetch\<close> is inside
  the \<^verbatim>\<open>try\<close>.
\<close>

definition process_game ::
  "env \<Rightarrow> args \<Rightarrow> int \<Rightarrow> string \<Rightarrow> request list \<Rightarrow> (error + rat dict option) \<times> request list" where
  "process_game e a team_id gid hist =
     (case nba_fetch e (boxscore_path gid) hist of
        (Inl ex, hist1) \<Rightarrow> (Inr None, hist1)
      | (Inr bs, hist1) \<Rightarrow>
          (case game_setup (conv e) team_id bs of
             Inl ex \<Rightarrow> (Inl ex, hist1)
           | Inr None \<Rightarrow> (Inr None, hist1)
           | Inr (Some (c, rows, opp_id, opp_abbr)) \<Rightarrow>
               (case fetch_depth_chart_buckets e (host a) opp_abbr hist1 of
                  (Inl ex, hist2) \<Rightarrow> (Inl ex, hist2)
                | (Inr depth_map, hist2) \<Rightarrow>
                    (map_sum id Some
                       (process_rows (conv e) c opp_id (metric a) depth_map rows zero_buckets),
                     hist2))))"

text \<open>\<^verbatim>\<open>for k in BUCKETS_KEYS: totals_l[k] += game_buckets[k]\<close>\<close>

fun add_game :: "string list \<Rightarrow> rat dict \<Rightarrow> rat dict \<Rightarrow> error + rat dict" where
  "add_game [] game_buckets totals_l = Inr totals_l"
| "add_game (k # ks) game_buckets totals_l =
     (case map_of game_buckets k of
        None \<Rightarrow> Inl KeyError
      | Some v \<Rightarrow> bind (dict_iadd totals_l k v) (add_game ks game_buckets))"

text \<open>The loop over the game ids; the state is the totals and the number of processed games.\<close>

fun season_loop ::
  "env \<Rightarrow> args \<Rightarrow> int \<Rightarrow> string list \<Rightarrow> rat dict \<times> nat \<Rightarrow> request list
     \<Rightarrow> (error + rat dict \<times> nat) \<times> request list" where
  "season_loop e a team_id [] st hist = (Inr st, hist)"
| "season_loop e a team_id (gid # gids) st hist =
     (case process_game e a team_id gid hist of
        (Inl ex, hist') \<Rightarrow> (Inl ex, hist')
      | (Inr None, hist') \<Rightarrow> season_loop e a team_id gids st hist'
      | (Inr (Some game_buckets), hist') \<Rightarrow>
          (case add_game BUCKETS_KEYS game_buckets (fst st) of
             Inl ex \<Rightarrow> (Inl ex, hist')
           | Inr totals_l \<Rightarrow> season_loop e a team_id gids (totals_l, snd st + 1) hist'))"

text \<open>\<^verbatim>\<open>a / b\<close> on floats.\<close>

definition py_truediv :: "rat \<Rightarrow> rat \<Rightarrow> error + rat" where
  "py_truediv x y = (if y = 0 then Inl ZeroDivisionError else Inr (x / y))"

text \<open>
  \<^verbatim>\<open>{k: (totals_l[k] / processed_l) if processed_l else 0.0 for k in BUCKETS_KEYS}\<close>,
  built key by key.
\<close>

fun per_game_of :: "string list \<Rightarrow> rat dict \<Rightarrow> nat \<Rightarrow> rat dict \<Rightarrow> error + rat dict" where
  "per_game_of [] totals_l processed_l acc = Inr acc"
| "per_game_of (k # ks) totals_l processed_l acc =
     bind (if processed_l \<noteq> 0
           then (case map_of totals_l k of
                   None \<Rightarrow> Inl KeyError
                 | Some t \<Rightarrow> py_truediv t (of_nat processed_l))
           else Inr 0) (\<lambda>v.
     per_game_of ks totals_l processed_l (AList.update k v acc))"

text \<open>\<^verbatim>\<open>[: max(1, min(args.games, 50))]\<close>\<close>

definition take_games :: "int \<Rightarrow> string list \<Rightarrow> string list" where
  "take_games g gids = take (nat (max 1 (min g 50))) gids"

record season_result =
  s_label :: string
  processed_l :: nat
  totals_l :: "rat dict"
  per_game_l :: "rat dict"

definition compute_for_season ::
  "env \<Rightarrow> args \<Rightarrow> int \<Rightarrow> int \<Rightarrow> request list \<Rightarrow> (error + season_result) \<times> request list" where
  "compute_for_season e a team_id start_year hist =
     (let label = season_label_from_year start_year;
          hist1 = hist @ [GameLog team_id label] in
      case team_game_log e hist team_id label of
        Inl ex \<Rightarrow> (Inl ex, hist1)
      | Inr all_gids \<Rightarrow>
          (case season_loop e a team_id (take_games (games a) all_gids) (zero_buckets, 0) hist1 of
             (Inl ex, hist2) \<Rightarrow> (Inl ex, hist2)
           | (Inr (tot, n), hist2) \<Rightarrow>
               (map_sum id
                  (\<lambda>pg. \<lparr>s_label = label, processed_l = n, totals_l = tot, per_game_l = pg\<rparr>)
                  (per_game_of BUCKETS_KEYS tot n []),
                hist2)))"

text \<open>What the script prints: the JSON object of the failure or of the success.\<close>

datatype report =
  Failure string
| Success (out_team: string) (out_season: string) (out_metric: string) (sample_games: nat)
    (perGame: "rat dict") (totals: "rat dict")

definition output_of :: "args \<Rightarrow> string \<Rightarrow> season_result \<Rightarrow> report" where
  "output_of a label r =
     Success (upper_str (team a)) label (metric a) (processed_l r) (per_game_l r) (totals_l r)"

text \<open>The part of \<^verbatim>\<open>main\<close> after the team is known: the requested season, then the fallback.\<close>

definition orchestrate ::
  "env \<Rightarrow> args \<Rightarrow> int \<Rightarrow> request list \<Rightarrow> (error + report) \<times> request list" where
  "orchestrate e a team_id hist =
     (let season_label = season_label_from_year (season a) in
      case compute_for_season e a team_id (season a) hist of
        (Inl ex, hist1) \<Rightarrow> (Inl ex, hist1)
      | (Inr r1, hist1) \<Rightarrow>
          if processed_l r1 = 0
          then (case compute_for_season e a team_id (season a - 1) hist1 of
                  (Inl ex, hist2) \<Rightarrow> (Inl ex, hist2)
                | (Inr r2, hist2) \<Rightarrow>
                    if processed_l r2 > 0
                    then (Inr (output_of a (s_label r2) r2), hist2)
                    else (Inr (output_of a season_label r1), hist2))
          else (Inr (output_of a season_label r1), hist1))"

definition main :: "env \<Rightarrow> args \<Rightarrow> request list \<Rightarrow> (error + report) \<times> request list" where
  "main e a hist =
     (case map_of ABBR_TO_TEAM_ID (upper_str (team a)) of
        None \<Rightarrow> (Inr (Failure (''Unknown team: '' @ upper_str (team a))), hist)
      | Some team_id \<Rightarrow>
          if team_id = 0 then (Inr (Failure (''Unknown team: '' @ upper_str (team a))), hist)
          else orchestrate e a team_id hist)"

section \<open>A sample run\<close>

text \<open>
  A small world for concrete runs: team MIL (id 1610612749), one game in the season
  2024-25 against BOS (id 1610612738), and a depth chart that knows two of the
  opponent's players.
\<close>

definition demo_py :: builtins where
  "demo_py = \<lparr>str_repr = (\<lambda>v. []), int_of_str = (\<lambda>s. None), float_of_str = (\<lambda>s. None)\<rparr>"

definition demo_headers :: json where
  "demo_headers = JArr (map JStr [''TEAM_ID'', ''TEAM_ABBREVIATION'', ''PLAYER_NAME'',
     ''START_POSITION'', ''PTS'', ''REB'', ''AST'', ''FG3M'', ''STL'', ''BLK''])"

definition demo_row :: "int \<Rightarrow> string \<Rightarrow> string \<Rightarrow> string \<Rightarrow> int list \<Rightarrow> json" where
  "demo_row tid abbr name pos stats = JArr ([JInt tid, JStr abbr, JStr name, JStr pos] @ map JInt stats)"

definition demo_rows :: json where
  "demo_rows = JArr
     [demo_row 1610612749 ''MIL'' ''Damian Lillard'' ''G'' [30, 4, 9, 5, 1, 0],
      demo_row 1610612738 ''BOS'' ''Jayson Tatum'' ''F'' [28, 8, 4, 3, 1, 0],
      demo_row 1610612738 ''BOS'' ''Derrick White'' ''G'' [15, 3, 5, 2, 1, 1],
      demo_row 1610612738 ''BOS'' ''Sam Hauser'' '''' [0, 1, 0, 0, 0, 0],
      demo_row 1610612738 ''BOS'' ''Al Horford'' ''C'' [9, 7, 2, 1, 0, 1]]"

definition demo_boxscore :: json where
  "demo_boxscore = JObj [(''resultSets'',
     JArr [JObj [(''name'', JStr ''PlayerStats''), (''headers'', demo_headers), (''rowSet'', demo_rows)]])]"

definition demo_depth :: json where
  "demo_depth = JObj [(''depthChart'',
     JObj [(''PG'', JArr [JStr ''Derrick White'']),
           (''SF'', JArr [JObj [(''name'', JStr ''Jayson Tatum Jr.'')]])])]"

definition demo_env :: env where
  "demo_env = \<lparr>conv = demo_py,
     team_game_log = (\<lambda>hist tid label. if label = ''2024-25'' then Inr [''1''] else Inr []),
     http_get = (\<lambda>hist url.
        if hist = [GameLog 1610612749 ''2024-25'']
        then Inr \<lparr>status_code = 200, json_body = Inr demo_boxscore\<rparr>
        else Inr \<lparr>status_code = 200, json_body = Inr demo_depth\<rparr>)\<rparr>"

definition demo_args :: args where
  "demo_args = \<lparr>team = ''mil'', season = 2024, games = 20, metric = ''pts'', host = ''h''\<rparr>"

section \<open>Definitions that follow the wording of the specification\<close>

text \<open>\<open>clamp(x, lo, hi)\<close> as the specification uses it for \<open>maxGames\<close>.\<close>

definition spec_clamp :: "int \<Rightarrow> int \<Rightarrow> int \<Rightarrow> int" where
  "spec_clamp x lo hi = (if x < lo then lo else if hi < x then hi else x)"


(*DEFS-END*)

section \<open>Auxiliary facts\<close>

lemma map_sum_id_Inr:
  "map_sum id f m = Inr r \<longleftrightarrow> (\<exists>x. m = Inr x \<and> r = f x)"
  by (cases m) auto

lemma season_loop_processed_le:
  "season_loop e a tid gids st hist = (Inr st', hist') \<Longrightarrow> snd st' \<le> snd st + length gids"
proof (induction gids arbitrary: st hist)
  case Nil
  then show ?case by simp
next
  case (Cons gid gids)
  obtain res h1 where pg: "process_game e a tid gid hist = (res, h1)"
    by (cases "process_game e a tid gid hist")
  show ?case
  proof (cases res)
    case (Inl ex)
    with Cons.prems pg show ?thesis by simp
  next
    case (Inr og)
    show ?thesis
    proof (cases og)
      case None
      with Cons.prems pg Inr have "season_loop e a tid gids st h1 = (Inr st', hist')"
        by simp
      from Cons.IH[OF this] show ?thesis by simp
    next
      case (Some gb)
      show ?thesis
      proof (cases "add_game BUCKETS_KEYS gb (fst st)")
        case (Inl ex)
        with Cons.prems pg Inr Some show ?thesis by simp
      next
        case (Inr t)
        with Cons.prems pg \<open>res = Inr og\<close> Some
        have "season_loop e a tid gids (t, snd st + 1) h1 = (Inr st', hist')"
          by simp
        from Cons.IH[OF this] show ?thesis by simp
      qed
    qed
  qed
qed

lemma demo_season:
  "compute_for_season demo_env demo_args 1610612749 2024 [] =
     (Inr \<lparr>s_label = ''2024-25'', processed_l = 1,
            totals_l = [(''PG'', 15), (''SG'', 0), (''SF'', 28), (''PF'', 0), (''C'', 9)],
            per_game_l = [(''PG'', 15), (''SG'', 0), (''SF'', 28), (''PF'', 0), (''C'', 9)]\<rparr>,
      [GameLog 1610612749 ''2024-25'', Get (NBA_BASE @ ''/'' @ boxscore_path ''1''),
       Get ''h/api/depth-chart?team=BOS''])"
  by code_simp


lemma keys_zero_buckets: "map fst zero_buckets = BUCKETS_KEYS"
  by (simp add: zero_buckets_def comp_def)

lemma keys_dict_iadd: "dict_iadd d k v = Inr d' \<Longrightarrow> map fst d' = map fst d"
proof -
  assume a: "dict_iadd d k v = Inr d'"
  then obtain x where x: "map_of d k = Some x" and d': "d' = AList.update k (x + v) d"
    by (auto simp: dict_iadd_def split: option.splits)
  from x have "k \<in> fst ` set d"
    by (metis map_of_eq_None_iff option.distinct(1))
  with d' show ?thesis
    by (simp add: update_keys)
qed

lemma bind_Inr: "bind m f = Inr y \<longleftrightarrow> (\<exists>x. m = Inr x \<and> f x = Inr y)"
  by (cases m) (auto simp: bind_def)

lemma bind_Inl: "bind m f = Inl e \<longleftrightarrow> m = Inl e \<or> (\<exists>x. m = Inr x \<and> f x = Inl e)"
  by (cases m) (auto simp: bind_def)

lemma keys_add_game: "add_game ks gb t = Inr t' \<Longrightarrow> map fst t' = map fst t"
proof (induction ks arbitrary: t)
  case Nil
  then show ?case by simp
next
  case (Cons k ks)
  then obtain v t1 where "dict_iadd t k v = Inr t1" "add_game ks gb t1 = Inr t'"
    by (auto simp: bind_Inr split: option.splits)
  with Cons.IH keys_dict_iadd show ?case by metis
qed

lemma keys_season_loop:
  "season_loop e a tid gids st hist = (Inr st', hist') \<Longrightarrow> map fst (fst st') = map fst (fst st)"
proof (induction gids arbitrary: st hist)
  case Nil
  then show ?case by simp
next
  case (Cons gid gids)
  obtain res h1 where pg: "process_game e a tid gid hist = (res, h1)"
    by (cases "process_game e a tid gid hist")
  show ?case
  proof (cases res)
    case (Inl ex)
    with Cons.prems pg show ?thesis by simp
  next
    case (Inr og)
    show ?thesis
    proof (cases og)
      case None
      with Cons.prems pg Inr have "season_loop e a tid gids st h1 = (Inr st', hist')"
        by simp
      from Cons.IH[OF this] show ?thesis by simp
    next
      case (Some gb)
      show ?thesis
      proof (cases "add_game BUCKETS_KEYS gb (fst st)")
        case (Inl ex)
        with Cons.prems pg Inr Some show ?thesis by simp
      next
        case (Inr t)
        with Cons.prems pg \<open>res = Inr og\<close> Some
        have "season_loop e a tid gids (t, snd st + 1) h1 = (Inr st', hist')"
          by simp
        from Cons.IH[OF this] keys_add_game[OF Inr] show ?thesis by simp
      qed
    qed
  qed
qed

lemma five_keys:
  assumes "map fst (d :: rat dict) = BUCKETS_KEYS"
  obtains v1 v2 v3 v4 v5 where
    "d = [(''PG'', v1), (''SG'', v2), (''SF'', v3), (''PF'', v4), (''C'', v5)]"
proof -
  have "length (map fst d) = 5"
    by (simp add: assms BUCKETS_KEYS_def)
  then have "length d = 5"
    by simp
  then obtain p1 p2 p3 p4 p5 where d: "d = [p1, p2, p3, p4, p5]"
    by (auto simp: length_Suc_conv eval_nat_numeral)
  with assms show ?thesis
    by (intro that[of "snd p1" "snd p2" "snd p3" "snd p4" "snd p5"])
       (auto simp: BUCKETS_KEYS_def prod_eq_iff)
qed

lemma per_game_of_five:
  "per_game_of BUCKETS_KEYS [(''PG'', v1), (''SG'', v2), (''SF'', v3), (''PF'', v4), (''C'', v5)] n [] =
     Inr (if n = 0 then [(''PG'', 0), (''SG'', 0), (''SF'', 0), (''PF'', 0), (''C'', 0)]
          else [(''PG'', v1 / of_nat n), (''SG'', v2 / of_nat n), (''SF'', v3 / of_nat n),
                (''PF'', v4 / of_nat n), (''C'', v5 / of_nat n)])"
  by (simp add: BUCKETS_KEYS_def bind_def py_truediv_def)

lemma compute_for_season_Inr:
  assumes "compute_for_season e a tid y hist = (Inr r, h)"
  obtains all_gids tot n pg where
    "team_game_log e hist tid (season_label_from_year y) = Inr all_gids"
    "season_loop e a tid (take_games (games a) all_gids) (zero_buckets, 0)
       (hist @ [GameLog tid (season_label_from_year y)]) = (Inr (tot, n), h)"
    "per_game_of BUCKETS_KEYS tot n [] = Inr pg"
    "r = \<lparr>s_label = season_label_from_year y, processed_l = n, totals_l = tot, per_game_l = pg\<rparr>"
proof -
  from assms obtain all_gids where
    gl: "team_game_log e hist tid (season_label_from_year y) = Inr all_gids"
    by (cases "team_game_log e hist tid (season_label_from_year y)")
       (auto simp: compute_for_season_def Let_def)
  obtain res h1 where
    sl: "season_loop e a tid (take_games (games a) all_gids) (zero_buckets, 0)
           (hist @ [GameLog tid (season_label_from_year y)]) = (res, h1)"
    by (cases "season_loop e a tid (take_games (games a) all_gids) (zero_buckets, 0)
           (hist @ [GameLog tid (season_label_from_year y)])")
  from assms gl sl obtain tot n pg where "res = Inr (tot, n)" "h1 = h"
    "per_game_of BUCKETS_KEYS tot n [] = Inr pg"
    "r = \<lparr>s_label = season_label_from_year y, processed_l = n, totals_l = tot, per_game_l = pg\<rparr>"
    by (cases res) (auto simp: compute_for_season_def Let_def map_sum_id_Inr split: prod.splits)
  with gl sl that show ?thesis by blast
qed

(*AUX-END*)

section \<open>The claims\<close>

text \<open>
  C8. For every integer \<open>maxGames\<close> the game ids taken from the season's list are the
  first \<open>clamp(maxGames, 1, 50)\<close> of them; the clamp stays inside \<open>[1, 50]\<close>, the
  inputs 0 and 500 become 1 and 50, and a season attempt that returns has processed at
  most 50 games.
\<close>

theorem take_games_clamp:
  "take_games g gids = take (nat (spec_clamp g 1 50)) gids
   \<and> 1 \<le> spec_clamp g 1 50 \<and> spec_clamp g 1 50 \<le> 50
   \<and> spec_clamp 0 1 50 = 1 \<and> spec_clamp 500 1 50 = 50
   \<and> length (take_games g gids) \<le> 50
   \<and> (\<forall>r h. compute_for_season e a tid y hist = (Inr r, h) \<longrightarrow> processed_l r \<le> 50)"
proof -
  have c: "max 1 (min g 50) = spec_clamp g 1 50"
    by (simp add: spec_clamp_def)
  have len: "length (take_games g' gs) \<le> 50" for g' and gs :: "string list"
    by (simp add: take_games_def)
  have "processed_l r \<le> 50" if "compute_for_season e a tid y hist = (Inr r, h)" for r h
  proof -
    from that obtain all_gids where
      gl: "team_game_log e hist tid (season_label_from_year y) = Inr all_gids"
      by (cases "team_game_log e hist tid (season_label_from_year y)")
         (auto simp: compute_for_season_def Let_def)
    obtain res h1 where
      sl: "season_loop e a tid (take_games (games a) all_gids) (zero_buckets, 0)
             (hist @ [GameLog tid (season_label_from_year y)]) = (res, h1)"
      by (cases "season_loop e a tid (take_games (games a) all_gids) (zero_buckets, 0)
             (hist @ [GameLog tid (season_label_from_year y)])")
    from that gl sl obtain tot n where res: "res = Inr (tot, n)" and r: "processed_l r = n"
      by (cases res) (auto simp: compute_for_season_def Let_def map_sum_id_Inr split: prod.splits)
    note loop = sl[unfolded res]
    from season_loop_processed_le[OF loop] len[of "games a" all_gids] show ?thesis
      by (simp add: r)
  qed
  moreover have "take_games g gids = take (nat (spec_clamp g 1 50)) gids"
    by (simp add: take_games_def c)
  moreover have "1 \<le> spec_clamp g 1 50 \<and> spec_clamp g 1 50 \<le> 50
      \<and> spec_clamp 0 1 50 = 1 \<and> spec_clamp 500 1 50 = 50"
    by (simp add: spec_clamp_def)
  ultimately show ?thesis
    using len[of g gids] by blast
qed

theorem take_games_clamp_witness:
  "\<exists>r h. compute_for_season demo_env demo_args 1610612749 2024 [] = (Inr r, h)
     \<and> processed_l r = 1 \<and> processed_l r \<le> 50"
  using take_games_clamp[of 20 "[]" demo_env demo_args 1610612749 2024 "[]"] demo_season
  by simp

text \<open>
  C9. The per-game average of every bucket is the bucket's total divided by the number
  of processed games when that number is positive, and zero when it is zero. Computing
  the averages from totals that carry the five keys never raises (in particular no
  division by zero), and both the totals and the averages of a season attempt that
  returns have exactly the keys PG, SG, SF, PF, C, in this order.
\<close>

theorem per_game_average:
  "(\<forall>tot n. map fst tot = BUCKETS_KEYS \<longrightarrow>
      (\<exists>pg. per_game_of BUCKETS_KEYS tot n [] = Inr pg))
   \<and> (\<forall>r h. compute_for_season e a tid y hist = (Inr r, h) \<longrightarrow>
        map fst (totals_l r) = BUCKETS_KEYS
        \<and> map fst (per_game_l r) = BUCKETS_KEYS
        \<and> (\<forall>k \<in> set BUCKETS_KEYS. \<exists>t. map_of (totals_l r) k = Some t
              \<and> map_of (per_game_l r) k =
                  Some (if processed_l r = 0 then 0 else t / of_nat (processed_l r))))"
proof (intro conjI allI impI)
  fix tot :: "rat dict" and n :: nat
  assume "map fst tot = BUCKETS_KEYS"
  then obtain v1 v2 v3 v4 v5 where
    "tot = [(''PG'', v1), (''SG'', v2), (''SF'', v3), (''PF'', v4), (''C'', v5)]"
    by (rule five_keys)
  then show "\<exists>pg. per_game_of BUCKETS_KEYS tot n [] = Inr pg"
    by (simp only: per_game_of_five) blast
next
  fix r h
  assume run: "compute_for_season e a tid y hist = (Inr r, h)"
  then obtain all_gids tot n pg where
    loop: "season_loop e a tid (take_games (games a) all_gids) (zero_buckets, 0)
       (hist @ [GameLog tid (season_label_from_year y)]) = (Inr (tot, n), h)"
    and pg: "per_game_of BUCKETS_KEYS tot n [] = Inr pg"
    and r: "r = \<lparr>s_label = season_label_from_year y, processed_l = n, totals_l = tot, per_game_l = pg\<rparr>"
    by (rule compute_for_season_Inr)
  from keys_season_loop[OF loop] have keys: "map fst tot = BUCKETS_KEYS"
    by (simp add: keys_zero_buckets)
  then obtain v1 v2 v3 v4 v5 where
    tot: "tot = [(''PG'', v1), (''SG'', v2), (''SF'', v3), (''PF'', v4), (''C'', v5)]"
    by (rule five_keys)
  from pg have pg': "pg = (if n = 0 then [(''PG'', 0), (''SG'', 0), (''SF'', 0), (''PF'', 0), (''C'', 0)]
          else [(''PG'', v1 / of_nat n), (''SG'', v2 / of_nat n), (''SF'', v3 / of_nat n),
                (''PF'', v4 / of_nat n), (''C'', v5 / of_nat n)])"
    by (simp only: tot per_game_of_five) simp
  show "map fst (totals_l r) = BUCKETS_KEYS"
    by (simp add: r keys)
  show "map fst (per_game_l r) = BUCKETS_KEYS"
    by (simp add: r pg' BUCKETS_KEYS_def)
  show "\<forall>k \<in> set BUCKETS_KEYS. \<exists>t. map_of (totals_l r) k = Some t
              \<and> map_of (per_game_l r) k =
                  Some (if processed_l r = 0 then 0 else t / of_nat (processed_l r))"
    by (simp add: r pg' tot BUCKETS_KEYS_def)
qed

theorem per_game_average_witness:
  "(\<exists>pg. per_game_of BUCKETS_KEYS zero_buckets 0 [] = Inr pg)
   \<and> (\<exists>r h. compute_for_season demo_env demo_args 1610612749 2024 [] = (Inr r, h)
        \<and> ''SF'' \<in> set BUCKETS_KEYS \<and> processed_l r = 1
        \<and> map_of (totals_l r) ''SF'' = Some 28 \<and> map_of (per_game_l r) ''SF'' = Some (28 / 1))"
proof -
  note t = per_game_average[of demo_env demo_args 1610612749 2024 "[]"]
  from t keys_zero_buckets have a: "\<exists>pg. per_game_of BUCKETS_KEYS zero_buckets 0 [] = Inr pg"
    by blast
  from t demo_season obtain r h where
    r: "compute_for_season demo_env demo_args 1610612749 2024 [] = (Inr r, h)"
    and avg: "\<forall>k \<in> set BUCKETS_KEYS. \<exists>t. map_of (totals_l r) k = Some t
              \<and> map_of (per_game_l r) k =
                  Some (if processed_l r = 0 then 0 else t / of_nat (processed_l r))"
    by blast
  have k: "''SF'' \<in> set BUCKETS_KEYS"
    by (simp add: BUCKETS_KEYS_def)
  from r demo_season have
    "processed_l r = 1" "map_of (totals_l r) ''SF'' = Some 28"
    by auto
  with avg k r a show ?thesis
    by fastforce
qed

(*CLAIMS-END*)

end
